theory Spec2Isabelle
  imports Main "HOL-Library.Word"
begin

unbundle bit_operations_syntax

section \<open>The netd client library (client/NetdClient.cpp)\<close>

text \<open>
  The client library wraps \<open>socket\<close>, \<open>connect\<close> and \<open>accept4\<close>, keeps two
  process-wide network identifiers, and asks the fwmark daemon to mark sockets.
  Everything the file calls but does not define (libc, the kernel, the daemon behind
  \<open>FwmarkClient::send\<close>, the stopwatch, the proprietary dispatch table) is an
  environment: a record of functions that answer a call from the state of the process
  at the moment of the call. The state holds \<open>errno\<close>, the two atomics of the file and
  the list of external calls made so far, oldest first, so an answer may depend on the
  whole history. Each source function becomes a function from environment, state and
  arguments to return value and new state.
\<close>

subsection \<open>C types and constants\<close>

text \<open>
  \<open>int\<close> and \<open>unsigned\<close> are 32 bits wide. An \<open>int\<close> is read in two's complement:
  \<open>x <s 0\<close> is the C test \<open>x < 0\<close>. Unary minus wraps around, as the compiled code
  does; it differs from mathematical negation only at \<open>INT_MIN\<close>, where C leaves the
  result undefined.
\<close>

type_synonym cint = "32 word"
type_synonym cuint = "32 word"
type_synonym socklen_t = "32 word"
type_synonym uid_t = "32 word"
type_synonym sa_family_t = "16 word"

text \<open>
  Modelled from the spec: \<open>resolv_netid.h\<close>, which defines \<open>NETID_UNSET\<close>, is not
  among the sources; the specification names 0 as the "unset" identifier.
\<close>

definition NETID_UNSET :: cuint where
  "NETID_UNSET = 0"

text \<open>Linux values of the constants of \<open>errno.h\<close> and \<open>sys/socket.h\<close> that the file uses.\<close>

definition EBADF :: cint where
  "EBADF = 9"

definition AF_INET6 :: cint where
  "AF_INET6 = 10"

definition SOCK_DGRAM :: cint where
  "SOCK_DGRAM = 2"

definition SOCK_CLOEXEC :: cint where
  "SOCK_CLOEXEC = 524288"

definition SOL_SOCKET :: cint where
  "SOL_SOCKET = 1"

definition SO_MARK :: cint where
  "SO_MARK = 36"

definition SO_DOMAIN :: cint where
  "SO_DOMAIN = 39"

text \<open>
  A \<open>sockaddr*\<close> is \<open>None\<close> when it is null and \<open>Some\<close> of the structure it points to
  otherwise.
\<close>

record sockaddr =
  sa_family :: sa_family_t
  sa_data :: "8 word list"

text \<open>
  \<open>FwmarkCommand.h\<close> is not among the sources. A command is built in the file by
  \<open>{cmdId, netId, uid}\<close>, and a \<open>FwmarkConnectInfo\<close> by its constructor from the
  error, the latency and the address; the records hold those arguments.
\<close>

datatype CmdId =
    ON_ACCEPT
  | ON_CONNECT
  | SELECT_NETWORK
  | PROTECT_FROM_VPN
  | SELECT_FOR_USER
  | QUERY_USER_ACCESS
  | ON_CONNECT_COMPLETE

record FwmarkCommand =
  cmdId :: CmdId
  cmd_netId :: cuint
  cmd_uid :: uid_t

record FwmarkConnectInfo =
  ci_error :: cint
  ci_latencyMs :: cuint
  ci_addr :: "sockaddr option"

subsection \<open>Process state and environment\<close>

text \<open>One entry per call that leaves the file, with the arguments of the call.\<close>

datatype event =
    CallLibcSocket cint cint cint
  | CallPropSocket cint cint cint
  | CallSocket cint cint cint
  | CallLibcAccept4 cint "sockaddr option" "socklen_t option" cint
  | CallLibcConnect cint "sockaddr option" socklen_t
  | CallPropConnect cint "sockaddr option" socklen_t
  | CallGetsockopt cint cint cint
  | CallClose cint
  | CallSend FwmarkCommand cint "FwmarkConnectInfo option"

record world =
  errno :: cint
  netIdForProcess :: cuint
  netIdForResolv :: cuint
  trace :: "event list"

text \<open>
  An external function answers with its return value and the value of \<open>errno\<close> after
  the call; \<open>accept4\<close> and \<open>getsockopt\<close> also answer with what they wrote through
  their pointer arguments.
\<close>

type_synonym socket_fn = "world \<Rightarrow> cint \<Rightarrow> cint \<Rightarrow> cint \<Rightarrow> cint \<times> cint"
type_synonym connect_fn = "world \<Rightarrow> cint \<Rightarrow> sockaddr option \<Rightarrow> socklen_t \<Rightarrow> cint \<times> cint"
type_synonym accept4_fn =
  "world \<Rightarrow> cint \<Rightarrow> sockaddr option \<Rightarrow> socklen_t option \<Rightarrow> cint
     \<Rightarrow> cint \<times> cint \<times> sockaddr \<times> socklen_t"

text \<open>
  \<open>USE_WRAPPER\<close> is the preprocessor symbol of the file: the two builds differ in
  \<open>netdClientConnect\<close> and \<open>netdClientSocket\<close>. \<open>libcAccept4\<close>, \<open>libcConnect\<close>
  and \<open>libcSocket\<close> are the function pointers of the file, null (\<open>None\<close>) until an
  installer has run and constant afterwards; \<open>propConnect\<close> and \<open>propSocket\<close> are the
  entries of \<open>__propClientDispatch\<close>. \<open>shouldSetFwmark\<close>,
  \<open>shouldReportConnectComplete\<close> and \<open>FwmarkClient_send\<close> stand for the static
  methods and the \<open>send\<close> method of \<open>FwmarkClient\<close>, \<open>fwmark_netId\<close> for the
  \<open>netId\<close> bit-field of the \<open>Fwmark\<close> union, and \<open>timeTaken\<close> for
  \<open>lround(s.timeTaken())\<close>; none of their sources is in the repository's client
  directory, so they are parameters.
\<close>

record env =
  USE_WRAPPER :: bool
  shouldSetFwmark :: "cint \<Rightarrow> bool"
  shouldReportConnectComplete :: "cint \<Rightarrow> bool"
  fwmark_netId :: "cuint \<Rightarrow> cuint"
  FwmarkClient_send ::
    "world \<Rightarrow> FwmarkCommand \<Rightarrow> cint \<Rightarrow> FwmarkConnectInfo option \<Rightarrow> cint \<times> cint"
  libcAccept4 :: "accept4_fn option"
  libcConnect :: "connect_fn option"
  libcSocket :: "socket_fn option"
  propConnect :: "connect_fn option"
  propSocket :: "socket_fn option"
  os_socket :: socket_fn
  os_close :: "world \<Rightarrow> cint \<Rightarrow> cint \<times> cint"
  os_getsockopt :: "world \<Rightarrow> cint \<Rightarrow> cint \<Rightarrow> cint \<Rightarrow> cint \<times> cint \<times> cuint"
  timeTaken :: "world \<Rightarrow> cuint"

text \<open>What stops a call before it returns.\<close>

datatype fault = NullPointerDereference | NullFunctionCall

subsection \<open>Calls that leave the file\<close>

definition logged :: "world \<Rightarrow> event \<Rightarrow> cint \<Rightarrow> world" where
  "logged w ev e = w\<lparr>errno := e, trace := trace w @ [ev]\<rparr>"

definition call_socket :: "(cint \<Rightarrow> cint \<Rightarrow> cint \<Rightarrow> event) \<Rightarrow> socket_fn \<Rightarrow> world
    \<Rightarrow> cint \<Rightarrow> cint \<Rightarrow> cint \<Rightarrow> cint \<times> world" where
  "call_socket ev f w domain type protocol =
     (fst (f w domain type protocol),
      logged w (ev domain type protocol) (snd (f w domain type protocol)))"

definition call_connect :: "(cint \<Rightarrow> sockaddr option \<Rightarrow> socklen_t \<Rightarrow> event) \<Rightarrow> connect_fn
    \<Rightarrow> world \<Rightarrow> cint \<Rightarrow> sockaddr option \<Rightarrow> socklen_t \<Rightarrow> cint \<times> world" where
  "call_connect ev f w sockfd addr addrlen =
     (fst (f w sockfd addr addrlen),
      logged w (ev sockfd addr addrlen) (snd (f w sockfd addr addrlen)))"

definition call_close :: "env \<Rightarrow> world \<Rightarrow> cint \<Rightarrow> world" where
  "call_close E w fd = logged w (CallClose fd) (snd (os_close E w fd))"

definition call_send :: "env \<Rightarrow> world \<Rightarrow> FwmarkCommand \<Rightarrow> cint \<Rightarrow> FwmarkConnectInfo option
    \<Rightarrow> cint \<times> world" where
  "call_send E w command fd info =
     (fst (FwmarkClient_send E w command fd info),
      logged w (CallSend command fd info) (snd (FwmarkClient_send E w command fd info)))"

text \<open>\<open>getsockopt\<close>: return value, the integer written through \<open>optval\<close>, new state.\<close>

definition call_getsockopt :: "env \<Rightarrow> world \<Rightarrow> cint \<Rightarrow> cint \<Rightarrow> cint \<Rightarrow> cint \<times> cuint \<times> world" where
  "call_getsockopt E w fd level optname =
     (case os_getsockopt E w fd level optname of
        (r, e, v) \<Rightarrow> (r, v, logged w (CallGetsockopt fd level optname) e))"

subsection \<open>The public marking operations\<close>

definition setNetworkForSocket :: "env \<Rightarrow> world \<Rightarrow> cuint \<Rightarrow> cint \<Rightarrow> cint \<times> world" where
  "setNetworkForSocket E w netId socketFd =
     (if socketFd <s 0 then (- EBADF, w)
      else call_send E w \<lparr>cmdId = SELECT_NETWORK, cmd_netId = netId, cmd_uid = 0\<rparr>
             socketFd None)"

definition protectFromVpn :: "env \<Rightarrow> world \<Rightarrow> cint \<Rightarrow> cint \<times> world" where
  "protectFromVpn E w socketFd =
     (if socketFd <s 0 then (- EBADF, w)
      else call_send E w \<lparr>cmdId = PROTECT_FROM_VPN, cmd_netId = 0, cmd_uid = 0\<rparr>
             socketFd None)"

definition setNetworkForUser :: "env \<Rightarrow> world \<Rightarrow> uid_t \<Rightarrow> cint \<Rightarrow> cint \<times> world" where
  "setNetworkForUser E w uid socketFd =
     (if socketFd <s 0 then (- EBADF, w)
      else call_send E w \<lparr>cmdId = SELECT_FOR_USER, cmd_netId = 0, cmd_uid = uid\<rparr>
             socketFd None)"

definition queryUserAccess :: "env \<Rightarrow> world \<Rightarrow> uid_t \<Rightarrow> cuint \<Rightarrow> cint \<times> world" where
  "queryUserAccess E w uid netId =
     call_send E w \<lparr>cmdId = QUERY_USER_ACCESS, cmd_netId = netId, cmd_uid = uid\<rparr> (- 1) None"

text \<open>
  \<open>getNetworkForSocket\<close> writes through \<open>netId\<close>: the argument is \<open>None\<close> for a null
  pointer and \<open>Some\<close> of the pointed-to value otherwise, and the second component of
  the result is that cell after the call.
\<close>

definition getNetworkForSocket :: "env \<Rightarrow> world \<Rightarrow> cuint option \<Rightarrow> cint
    \<Rightarrow> cint \<times> cuint option \<times> world" where
  "getNetworkForSocket E w netId socketFd =
     (if netId = None \<or> socketFd <s 0 then (- EBADF, netId, w)
      else case call_getsockopt E w socketFd SOL_SOCKET SO_MARK of
        (r, fwmark, w1) \<Rightarrow>
          if r = - 1 then (- errno w1, netId, w1)
          else (0, Some (fwmark_netId E fwmark), w1))"

definition getNetworkForProcess :: "world \<Rightarrow> cuint" where
  "getNetworkForProcess w = netIdForProcess w"

subsection \<open>The process-wide network state\<close>

definition getNetworkForResolv :: "world \<Rightarrow> cuint \<Rightarrow> cuint" where
  "getNetworkForResolv w netId =
     (if netId \<noteq> NETID_UNSET then netId
      else if netIdForProcess w \<noteq> NETID_UNSET then netIdForProcess w
      else netIdForResolv w)"

text \<open>The \<open>std::atomic_uint*\<close> argument of \<open>setNetworkForTarget\<close> is one of the two atomics.\<close>

datatype target = ForProcess | ForResolv

fun load :: "target \<Rightarrow> world \<Rightarrow> cuint" where
  "load ForProcess w = netIdForProcess w"
| "load ForResolv w = netIdForResolv w"

fun store :: "target \<Rightarrow> cuint \<Rightarrow> world \<Rightarrow> world" where
  "store ForProcess v w = w\<lparr>netIdForProcess := v\<rparr>"
| "store ForResolv v w = w\<lparr>netIdForResolv := v\<rparr>"

text \<open>
  The probe socket of \<open>setNetworkForTarget\<close>: through \<open>libcSocket\<close> when the pointer
  is set, through \<open>socket\<close> otherwise.
\<close>

definition probe_socket :: "env \<Rightarrow> world \<Rightarrow> cint \<times> world" where
  "probe_socket E w =
     (case libcSocket E of
        Some f \<Rightarrow> call_socket CallLibcSocket f w AF_INET6 (SOCK_DGRAM OR SOCK_CLOEXEC) 0
      | None \<Rightarrow>
          call_socket CallSocket (os_socket E) w AF_INET6 (SOCK_DGRAM OR SOCK_CLOEXEC) 0)"

definition setNetworkForTarget :: "env \<Rightarrow> world \<Rightarrow> cuint \<Rightarrow> target \<Rightarrow> cint \<times> world" where
  "setNetworkForTarget E w netId tgt =
     (if netId = NETID_UNSET then (0, store tgt netId w)
      else case probe_socket E w of
        (socketFd, w1) \<Rightarrow>
          if socketFd <s 0 then (- errno w1, w1)
          else case setNetworkForSocket E w1 netId socketFd of
            (error, w2) \<Rightarrow>
              (error, call_close E (if error = 0 then store tgt netId w2 else w2) socketFd))"

definition setNetworkForProcess :: "env \<Rightarrow> world \<Rightarrow> cuint \<Rightarrow> cint \<times> world" where
  "setNetworkForProcess E w netId = setNetworkForTarget E w netId ForProcess"

definition setNetworkForResolv :: "env \<Rightarrow> world \<Rightarrow> cuint \<Rightarrow> cint \<times> world" where
  "setNetworkForResolv E w netId = setNetworkForTarget E w netId ForResolv"

subsection \<open>The wrapped socket primitives\<close>

definition closeFdAndSetErrno :: "env \<Rightarrow> world \<Rightarrow> cint \<Rightarrow> cint \<Rightarrow> cint \<times> world" where
  "closeFdAndSetErrno E w fd error = (- 1, (call_close E w fd)\<lparr>errno := - error\<rparr>)"

text \<open>
  \<open>accept4\<close> writes through \<open>addr\<close> and \<open>addrlen\<close> when they are not null: the
  call answers with the return value, the new state and the two buffers after the call.
\<close>

definition call_accept4 :: "accept4_fn \<Rightarrow> world \<Rightarrow> cint \<Rightarrow> sockaddr option
    \<Rightarrow> socklen_t option \<Rightarrow> cint \<Rightarrow> cint \<times> world \<times> sockaddr option \<times> socklen_t option" where
  "call_accept4 f w sockfd addr addrlen flags =
     (case f w sockfd addr addrlen flags of
        (r, e, sa, len) \<Rightarrow>
          (r, logged w (CallLibcAccept4 sockfd addr addrlen flags) e,
           map_option (\<lambda>_. sa) addr, map_option (\<lambda>_. len) addrlen))"

text \<open>The end of \<open>netdClientAccept4\<close>, from the test of the family on.\<close>

definition accept_notify :: "env \<Rightarrow> world \<Rightarrow> cint \<Rightarrow> cint \<Rightarrow> cint \<times> world" where
  "accept_notify E w acceptedSocket family =
     (if shouldSetFwmark E family then
        (case call_send E w \<lparr>cmdId = ON_ACCEPT, cmd_netId = 0, cmd_uid = 0\<rparr>
                acceptedSocket None of
           (error, w1) \<Rightarrow>
             if error \<noteq> 0 then closeFdAndSetErrno E w1 acceptedSocket error
             else (acceptedSocket, w1))
      else (acceptedSocket, w))"

definition netdClientAccept4 :: "env \<Rightarrow> world \<Rightarrow> cint \<Rightarrow> sockaddr option \<Rightarrow> socklen_t option
    \<Rightarrow> cint \<Rightarrow> fault + (cint \<times> world) \<times> sockaddr option \<times> socklen_t option" where
  "netdClientAccept4 E w sockfd addr addrlen flags =
     (case libcAccept4 E of
        None \<Rightarrow> Inl NullFunctionCall
      | Some f \<Rightarrow>
          (case call_accept4 f w sockfd addr addrlen flags of
             (acceptedSocket, w1, addr', addrlen') \<Rightarrow>
               if acceptedSocket = - 1 then Inr ((- 1, w1), addr', addrlen')
               else
                 (case addr' of
                    Some sa \<Rightarrow>
                      Inr (accept_notify E w1 acceptedSocket (ucast (sa_family sa)),
                           addr', addrlen')
                  | None \<Rightarrow>
                      (case call_getsockopt E w1 acceptedSocket SOL_SOCKET SO_DOMAIN of
                         (r, family, w2) \<Rightarrow>
                           if r = - 1 then
                             Inr (closeFdAndSetErrno E w2 acceptedSocket (- errno w2),
                                  addr', addrlen')
                           else Inr (accept_notify E w2 acceptedSocket family,
                                     addr', addrlen')))))"

text \<open>
  The call of the connect primitive in \<open>netdClientConnect\<close>, with its two
  preprocessor variants. With \<open>USE_WRAPPER\<close> the family is read through \<open>addr\<close>
  without a test of the pointer.
\<close>

definition via_libcConnect :: "env \<Rightarrow> world \<Rightarrow> cint \<Rightarrow> sockaddr option \<Rightarrow> socklen_t
    \<Rightarrow> fault + cint \<times> world" where
  "via_libcConnect E w sockfd addr addrlen =
     (case libcConnect E of
        None \<Rightarrow> Inl NullFunctionCall
      | Some f \<Rightarrow> Inr (call_connect CallLibcConnect f w sockfd addr addrlen))"

definition connect_dispatch :: "env \<Rightarrow> world \<Rightarrow> cint \<Rightarrow> sockaddr option \<Rightarrow> socklen_t
    \<Rightarrow> fault + cint \<times> world" where
  "connect_dispatch E w sockfd addr addrlen =
     (if USE_WRAPPER E then
        (case addr of
           None \<Rightarrow> Inl NullPointerDereference
         | Some sa \<Rightarrow>
             if shouldSetFwmark E (ucast (sa_family sa)) then
               (case propConnect E of
                  Some p \<Rightarrow> Inr (call_connect CallPropConnect p w sockfd addr addrlen)
                | None \<Rightarrow> via_libcConnect E w sockfd addr addrlen)
             else via_libcConnect E w sockfd addr addrlen)
      else via_libcConnect E w sockfd addr addrlen)"

text \<open>
  \<open>netdClientConnect\<close> from the stopwatch on: the connect call, the saved \<open>errno\<close>,
  the completion report and the restored \<open>errno\<close>.
\<close>

definition connect_and_report :: "env \<Rightarrow> world \<Rightarrow> bool \<Rightarrow> cint \<Rightarrow> sockaddr option \<Rightarrow> socklen_t
    \<Rightarrow> fault + cint \<times> world" where
  "connect_and_report E w shouldSet sockfd addr addrlen =
     (case connect_dispatch E w sockfd addr addrlen of
        Inl flt \<Rightarrow> Inl flt
      | Inr (ret, w1) \<Rightarrow>
          (let connectErrno = errno w1;
               latencyMs = timeTaken E w1;
               w2 = (if shouldSet \<and>
                        (case addr of
                           None \<Rightarrow> False
                         | Some sa \<Rightarrow> shouldReportConnectComplete E (ucast (sa_family sa)))
                     then snd (call_send E w1
                            \<lparr>cmdId = ON_CONNECT_COMPLETE, cmd_netId = 0, cmd_uid = 0\<rparr> sockfd
                            (Some \<lparr>ci_error = (if ret = 0 then 0 else connectErrno),
                                   ci_latencyMs = latencyMs, ci_addr = addr\<rparr>))
                     else w1)
           in Inr (ret, w2\<lparr>errno := connectErrno\<rparr>)))"

definition netdClientConnect :: "env \<Rightarrow> world \<Rightarrow> cint \<Rightarrow> sockaddr option \<Rightarrow> socklen_t
    \<Rightarrow> fault + cint \<times> world" where
  "netdClientConnect E w sockfd addr addrlen =
     (let shouldSet = (0 \<le>s sockfd \<and>
            (case addr of
               None \<Rightarrow> False
             | Some sa \<Rightarrow> shouldSetFwmark E (ucast (sa_family sa))))
      in if shouldSet then
           (case call_send E w \<lparr>cmdId = ON_CONNECT, cmd_netId = 0, cmd_uid = 0\<rparr>
                   sockfd None of
              (error, w1) \<Rightarrow>
                if error \<noteq> 0 then Inr (- 1, w1\<lparr>errno := - error\<rparr>)
                else connect_and_report E w1 shouldSet sockfd addr addrlen)
         else connect_and_report E w shouldSet sockfd addr addrlen)"

text \<open>The call of the socket primitive in \<open>netdClientSocket\<close>, with its two variants.\<close>

definition via_libcSocket :: "env \<Rightarrow> world \<Rightarrow> cint \<Rightarrow> cint \<Rightarrow> cint \<Rightarrow> fault + cint \<times> world" where
  "via_libcSocket E w domain type protocol =
     (case libcSocket E of
        None \<Rightarrow> Inl NullFunctionCall
      | Some f \<Rightarrow> Inr (call_socket CallLibcSocket f w domain type protocol))"

definition socket_dispatch :: "env \<Rightarrow> world \<Rightarrow> cint \<Rightarrow> cint \<Rightarrow> cint \<Rightarrow> fault + cint \<times> world" where
  "socket_dispatch E w domain type protocol =
     (if \<not> USE_WRAPPER E then via_libcSocket E w domain type protocol
      else
        (case propSocket E of
           Some p \<Rightarrow> Inr (call_socket CallPropSocket p w domain type protocol)
         | None \<Rightarrow> via_libcSocket E w domain type protocol))"

definition netdClientSocket :: "env \<Rightarrow> world \<Rightarrow> cint \<Rightarrow> cint \<Rightarrow> cint \<Rightarrow> fault + cint \<times> world" where
  "netdClientSocket E w domain type protocol =
     (case socket_dispatch E w domain type protocol of
        Inl flt \<Rightarrow> Inl flt
      | Inr (socketFd, w1) \<Rightarrow>
          if socketFd = - 1 then Inr (- 1, w1)
          else
            (let netId = netIdForProcess w1
             in if netId \<noteq> NETID_UNSET \<and> shouldSetFwmark E domain then
                  (case setNetworkForSocket E w1 netId socketFd of
                     (error, w2) \<Rightarrow>
                       if error \<noteq> 0 then Inr (closeFdAndSetErrno E w2 socketFd error)
                       else Inr (socketFd, w2))
                else Inr (socketFd, w1)))"

subsection \<open>Observing a call\<close>

text \<open>
  The two exported pin functions, by the slot they pin; the external calls made between
  two states; and the command kinds of the daemon exchanges among a list of calls.
\<close>

definition pinNetwork :: "target \<Rightarrow> env \<Rightarrow> world \<Rightarrow> cuint \<Rightarrow> cint \<times> world" where
  "pinNetwork tgt =
     (case tgt of ForProcess \<Rightarrow> setNetworkForProcess | ForResolv \<Rightarrow> setNetworkForResolv)"

definition new_events :: "world \<Rightarrow> world \<Rightarrow> event list" where
  "new_events w w' = drop (length (trace w)) (trace w')"

fun sent_kinds :: "event list \<Rightarrow> CmdId list" where
  "sent_kinds [] = []"
| "sent_kinds (CallSend command fd info # evs) = cmdId command # sent_kinds evs"
| "sent_kinds (ev # evs) = sent_kinds evs"

text \<open>
  The environment \<open>E\<close> with the daemon's answers to \<open>ON_CONNECT_COMPLETE\<close> replaced
  by those of \<open>g\<close>, and every other answer kept.
\<close>

definition answering_complete ::
  "env \<Rightarrow> (world \<Rightarrow> FwmarkCommand \<Rightarrow> cint \<Rightarrow> FwmarkConnectInfo option \<Rightarrow> cint \<times> cint) \<Rightarrow> env" where
  "answering_complete E g =
     E\<lparr>FwmarkClient_send := \<lambda>w command fd info.
          if cmdId command = ON_CONNECT_COMPLETE then g w command fd info
          else FwmarkClient_send E w command fd info\<rparr>"

subsection \<open>Concrete environments\<close>

text \<open>
  A process with nothing pinned, and one pinned to network 100. In \<open>env0\<close> the IP
  families qualify for marking and for completion reports, every external call
  succeeds and leaves \<open>errno\<close> alone: \<open>socket\<close> answers descriptor 7, \<open>accept4\<close>
  descriptor 8 with an \<open>AF_INET\<close> peer, \<open>getsockopt\<close> the value 10. \<open>env_deny\<close> is
  \<open>env0\<close> with a daemon that refuses every command with \<open>-EACCES\<close>; in
  \<open>env_refused\<close> the connection is refused (\<open>ECONNREFUSED\<close>) and the completion
  report fails; \<open>env_wrapper\<close> is the \<open>USE_WRAPPER\<close> build with both proprietary
  entries set; in \<open>env_nofd\<close> no socket can be created (\<open>EMFILE\<close>); in
  \<open>env_noreport\<close> no family qualifies for completion reports. The last three are
  \<open>env_deny\<close> with only \<open>AF_INET6\<close> qualifying for marking, with only
  \<open>AF_INET\<close> qualifying and \<open>getsockopt\<close> answering \<open>AF_INET\<close>, and with
  \<open>getsockopt\<close> answering \<open>AF_UNIX\<close>.
\<close>

definition world0 :: world where
  "world0 = \<lparr>errno = 0, netIdForProcess = 0, netIdForResolv = 0, trace = []\<rparr>"

definition world_pinned :: world where
  "world_pinned = \<lparr>errno = 0, netIdForProcess = 100, netIdForResolv = 0, trace = []\<rparr>"

definition env0 :: env where
  "env0 =
     \<lparr>USE_WRAPPER = False,
      shouldSetFwmark = (\<lambda>family. family = 2 \<or> family = 10),
      shouldReportConnectComplete = (\<lambda>family. family = 2 \<or> family = 10),
      fwmark_netId = (\<lambda>mark. mark AND 65535),
      FwmarkClient_send = (\<lambda>w command fd info. (0, errno w)),
      libcAccept4 =
        Some (\<lambda>w sockfd addr addrlen flags.
                (8, errno w, \<lparr>sa_family = 2, sa_data = []\<rparr>, 16)),
      libcConnect = Some (\<lambda>w sockfd addr addrlen. (0, errno w)),
      libcSocket = Some (\<lambda>w domain type protocol. (7, errno w)),
      propConnect = None,
      propSocket = None,
      os_socket = (\<lambda>w domain type protocol. (7, errno w)),
      os_close = (\<lambda>w fd. (0, errno w)),
      os_getsockopt = (\<lambda>w fd level optname. (0, errno w, 10)),
      timeTaken = (\<lambda>w. 3)\<rparr>"

definition env_deny :: env where
  "env_deny = env0\<lparr>FwmarkClient_send := \<lambda>w command fd info. (- 13, 13)\<rparr>"

definition env_refused :: env where
  "env_refused =
     answering_complete (env0\<lparr>libcConnect := Some (\<lambda>w sockfd addr addrlen. (- 1, 111))\<rparr>)
       (\<lambda>w command fd info. (- 13, 13))"

definition env_wrapper :: env where
  "env_wrapper =
     env0\<lparr>USE_WRAPPER := True,
          propConnect := Some (\<lambda>w sockfd addr addrlen. (0, errno w)),
          propSocket := Some (\<lambda>w domain type protocol. (7, errno w))\<rparr>"

definition env_nofd :: env where
  "env_nofd = env0\<lparr>libcSocket := Some (\<lambda>w domain type protocol. (- 1, 24))\<rparr>"

definition env_noreport :: env where
  "env_noreport = env0\<lparr>shouldReportConnectComplete := \<lambda>family. False\<rparr>"

definition env_deny_inet6 :: env where
  "env_deny_inet6 = env_deny\<lparr>shouldSetFwmark := \<lambda>family. family = 10\<rparr>"

definition env_deny_inet :: env where
  "env_deny_inet =
     env_deny\<lparr>shouldSetFwmark := \<lambda>family. family = 2,
              os_getsockopt := \<lambda>w fd level optname. (0, errno w, 2)\<rparr>"

definition env_deny_unix :: env where
  "env_deny_unix = env_deny\<lparr>os_getsockopt := \<lambda>w fd level optname. (0, errno w, 1)\<rparr>"

definition inet_peer :: sockaddr where
  "inet_peer = \<lparr>sa_family = 2, sa_data = [0, 80, 192, 0, 2, 1]\<rparr>"

definition unix_peer :: sockaddr where
  "unix_peer = \<lparr>sa_family = 1, sa_data = []\<rparr>"

section \<open>Properties\<close>

subsection \<open>Basic facts\<close>

lemma logged_simps:
  "errno (logged w ev e) = e"
  "trace (logged w ev e) = trace w @ [ev]"
  "netIdForProcess (logged w ev e) = netIdForProcess w"
  "netIdForResolv (logged w ev e) = netIdForResolv w"
  by (simp_all add: logged_def)

lemma minus_one_negative: "(- 1 :: cint) <s 0"
  by (simp add: word_sless_alt)

lemma load_store: "load tgt (store tgt v w) = v"
  by (cases tgt) simp_all

lemma store_effect:
  "trace (store tgt v w) = trace w" "errno (store tgt v w) = errno w"
  by (cases tgt; simp)+

lemma load_logged: "load tgt (logged w ev e) = load tgt w"
  by (cases tgt) (simp_all add: logged_simps)

lemmas fixture_simps = env0_def env_deny_def env_refused_def env_wrapper_def env_nofd_def
  env_noreport_def env_deny_inet6_def env_deny_inet_def env_deny_unix_def world0_def world_pinned_def inet_peer_def unix_peer_def NETID_UNSET_def
  AF_INET6_def SOCK_DGRAM_def SOCK_CLOEXEC_def SOL_SOCKET_def SO_DOMAIN_def
  word_sless_alt word_sle_eq

subsection \<open>Network used for name resolution\<close>

text \<open>
  C4: \<open>getNetworkForResolv\<close> returns the identifier it is given when that is not the
  unset sentinel; otherwise the process-pinned network when that slot is set; otherwise
  the resolver-pinned network when that slot is set; otherwise the unset sentinel. With
  explicit 5, process 7 and resolver 9 the answer is 5; with explicit unset it is 7;
  with explicit and process unset it is 9; with all three unset it is unset.
\<close>

theorem getNetworkForResolv_precedence:
  "getNetworkForResolv w netId =
     (if netId \<noteq> NETID_UNSET then netId
      else if netIdForProcess w \<noteq> NETID_UNSET then netIdForProcess w
      else if netIdForResolv w \<noteq> NETID_UNSET then netIdForResolv w
      else NETID_UNSET)
   \<and> getNetworkForResolv \<lparr>errno = e, netIdForProcess = 7, netIdForResolv = 9, trace = t\<rparr> 5 = 5
   \<and> getNetworkForResolv \<lparr>errno = e, netIdForProcess = 7, netIdForResolv = 9, trace = t\<rparr>
        NETID_UNSET = 7
   \<and> getNetworkForResolv
        \<lparr>errno = e, netIdForProcess = NETID_UNSET, netIdForResolv = 9, trace = t\<rparr>
        NETID_UNSET = 9
   \<and> getNetworkForResolv
        \<lparr>errno = e, netIdForProcess = NETID_UNSET, netIdForResolv = NETID_UNSET, trace = t\<rparr>
        NETID_UNSET = NETID_UNSET"
  by (simp add: getNetworkForResolv_def NETID_UNSET_def)

subsection \<open>The public marking operations\<close>

text \<open>
  C7: given a negative descriptor, each of \<open>setNetworkForSocket\<close>, \<open>protectFromVpn\<close>,
  \<open>setNetworkForUser\<close> and \<open>getNetworkForSocket\<close> returns \<open>-EBADF\<close> at once: the
  state of the process is the one it was called in, so no external call, and in
  particular no exchange with the daemon, has been made.
\<close>

theorem negative_descriptor_rejected:
  assumes "socketFd <s 0"
  shows "setNetworkForSocket E w netId socketFd = (- EBADF, w)
       \<and> protectFromVpn E w socketFd = (- EBADF, w)
       \<and> setNetworkForUser E w uid socketFd = (- EBADF, w)
       \<and> getNetworkForSocket E w netIdPtr socketFd = (- EBADF, netIdPtr, w)"
  using assms
  by (simp add: setNetworkForSocket_def protectFromVpn_def setNetworkForUser_def
      getNetworkForSocket_def)

theorem negative_descriptor_rejected_witness:
  "(- 1 :: cint) <s 0
   \<and> setNetworkForSocket env_deny world0 100 (- 1) = (- EBADF, world0)
   \<and> protectFromVpn env_deny world0 (- 1) = (- EBADF, world0)
   \<and> setNetworkForUser env_deny world0 1000 (- 1) = (- EBADF, world0)
   \<and> getNetworkForSocket env_deny world0 (Some 0) (- 1) = (- EBADF, Some 0, world0)"
proof -
  have neg: "(- 1 :: cint) <s 0"
    by (rule minus_one_negative)
  from negative_descriptor_rejected [OF neg, of env_deny world0 100 1000 "Some 0"] neg
  show ?thesis by simp
qed

text \<open>
  C9: for every uid and network identifier, \<open>queryUserAccess\<close> makes exactly one
  external call, the exchange of the command \<open>{QUERY_USER_ACCESS, netId, uid}\<close> with
  the descriptor argument \<open>-1\<close> ("no descriptor") and no payload, and returns the
  status of that exchange unchanged.
\<close>

theorem queryUserAccess_no_descriptor:
  "fst (queryUserAccess E w uid netId) =
     fst (FwmarkClient_send E w
            \<lparr>cmdId = QUERY_USER_ACCESS, cmd_netId = netId, cmd_uid = uid\<rparr> (- 1) None)
   \<and> new_events w (snd (queryUserAccess E w uid netId)) =
       [CallSend \<lparr>cmdId = QUERY_USER_ACCESS, cmd_netId = netId, cmd_uid = uid\<rparr> (- 1) None]"
  by (simp add: queryUserAccess_def call_send_def new_events_def logged_simps)

subsection \<open>Pinning a network\<close>

lemma probe_socket_load: "probe_socket E w = (fd, w1) \<Longrightarrow> load tgt w1 = load tgt w"
  by (auto simp: probe_socket_def call_socket_def load_logged split: option.splits)

lemma probe_socket_primitive:
  "probe_socket E w =
     (case libcSocket E of
        Some f \<Rightarrow>
          (fst (f w AF_INET6 (SOCK_DGRAM OR SOCK_CLOEXEC) 0),
           w\<lparr>errno := snd (f w AF_INET6 (SOCK_DGRAM OR SOCK_CLOEXEC) 0),
             trace := trace w @ [CallLibcSocket AF_INET6 (SOCK_DGRAM OR SOCK_CLOEXEC) 0]\<rparr>)
      | None \<Rightarrow>
          (fst (os_socket E w AF_INET6 (SOCK_DGRAM OR SOCK_CLOEXEC) 0),
           w\<lparr>errno := snd (os_socket E w AF_INET6 (SOCK_DGRAM OR SOCK_CLOEXEC) 0),
             trace := trace w @ [CallSocket AF_INET6 (SOCK_DGRAM OR SOCK_CLOEXEC) 0]\<rparr>))"
  by (simp add: probe_socket_def call_socket_def logged_def split: option.splits)

lemma pinNetwork_eq: "pinNetwork tgt E w netId = setNetworkForTarget E w netId tgt"
  by (cases tgt) (simp_all add: pinNetwork_def setNetworkForProcess_def setNetworkForResolv_def)

text \<open>
  C3: for \<open>setNetworkForProcess\<close> and \<open>setNetworkForResolv\<close> alike: pinning the
  unset sentinel clears the slot and returns 0, whatever the slot held and without any
  external call. For any other identifier a probe socket is created. If that fails, the
  negated \<open>errno\<close> of the failure is returned and the slot is unchanged. Otherwise the
  \<open>SELECT_NETWORK\<close> exchange for the probe decides: its status is returned as it is,
  the slot holds the identifier if the status is 0 and is unchanged otherwise, and the
  probe is closed afterwards in both cases.
\<close>

theorem pinNetwork_verified:
  "pinNetwork tgt E w NETID_UNSET = (0, store tgt NETID_UNSET w)
   \<and> load tgt (store tgt NETID_UNSET w) = NETID_UNSET
   \<and> (netId \<noteq> NETID_UNSET \<and> probe_socket E w = (fd, w1) \<longrightarrow>
        (fd <s 0 \<longrightarrow>
           pinNetwork tgt E w netId = (- errno w1, w1) \<and> load tgt w1 = load tgt w)
      \<and> (\<not> fd <s 0
           \<and> FwmarkClient_send E w1
                \<lparr>cmdId = SELECT_NETWORK, cmd_netId = netId, cmd_uid = 0\<rparr> fd None
               = (status, e) \<longrightarrow>
           (\<exists>w'. pinNetwork tgt E w netId = (status, w')
                \<and> load tgt w' = (if status = 0 then netId else load tgt w)
                \<and> trace w' = trace w1 @
                    [CallSend \<lparr>cmdId = SELECT_NETWORK, cmd_netId = netId, cmd_uid = 0\<rparr>
                       fd None,
                     CallClose fd])))"
proof (intro conjI impI)
  show "pinNetwork tgt E w NETID_UNSET = (0, store tgt NETID_UNSET w)"
    by (simp add: pinNetwork_eq setNetworkForTarget_def)
  show "load tgt (store tgt NETID_UNSET w) = NETID_UNSET"
    by (rule load_store)
next
  assume a: "netId \<noteq> NETID_UNSET \<and> probe_socket E w = (fd, w1)" and neg: "fd <s 0"
  then show "pinNetwork tgt E w netId = (- errno w1, w1)"
    by (simp add: pinNetwork_eq setNetworkForTarget_def)
  from a show "load tgt w1 = load tgt w"
    by (blast intro: probe_socket_load)
next
  assume a: "netId \<noteq> NETID_UNSET \<and> probe_socket E w = (fd, w1)"
    and b: "\<not> fd <s 0
           \<and> FwmarkClient_send E w1
                \<lparr>cmdId = SELECT_NETWORK, cmd_netId = netId, cmd_uid = 0\<rparr> fd None
               = (status, e)"
  from a have keep: "load tgt w1 = load tgt w"
    by (blast intro: probe_socket_load)
  from a b keep
  show "\<exists>w'. pinNetwork tgt E w netId = (status, w')
                \<and> load tgt w' = (if status = 0 then netId else load tgt w)
                \<and> trace w' = trace w1 @
                    [CallSend \<lparr>cmdId = SELECT_NETWORK, cmd_netId = netId, cmd_uid = 0\<rparr>
                       fd None,
                     CallClose fd]"
    by (simp add: pinNetwork_eq setNetworkForTarget_def setNetworkForSocket_def
        call_send_def call_close_def load_logged load_store store_effect logged_simps)
qed

theorem pinNetwork_verified_witness:
  "pinNetwork ForProcess env_deny world_pinned NETID_UNSET
     = (0, world_pinned\<lparr>netIdForProcess := 0\<rparr>)
   \<and> pinNetwork ForResolv env_nofd world_pinned 200
       = (- 24, logged world_pinned (CallLibcSocket 10 524290 0) 24)
   \<and> (\<exists>w'. pinNetwork ForProcess env_deny world_pinned 200 = (- 13, w')
          \<and> netIdForProcess w' = 100
          \<and> trace w' =
              [CallLibcSocket 10 524290 0,
               CallSend \<lparr>cmdId = SELECT_NETWORK, cmd_netId = 200, cmd_uid = 0\<rparr> 7 None,
               CallClose 7])
   \<and> (\<exists>w'. pinNetwork ForProcess env0 world_pinned 200 = (0, w')
          \<and> netIdForProcess w' = 200
          \<and> trace w' =
              [CallLibcSocket 10 524290 0,
               CallSend \<lparr>cmdId = SELECT_NETWORK, cmd_netId = 200, cmd_uid = 0\<rparr> 7 None,
               CallClose 7])"
proof (intro conjI)
  show "pinNetwork ForProcess env_deny world_pinned NETID_UNSET
     = (0, world_pinned\<lparr>netIdForProcess := 0\<rparr>)"
    using pinNetwork_verified [of ForProcess env_deny world_pinned]
    by (simp add: NETID_UNSET_def)
  show "pinNetwork ForResolv env_nofd world_pinned 200
       = (- 24, logged world_pinned (CallLibcSocket 10 524290 0) 24)"
    using pinNetwork_verified [of ForResolv env_nofd world_pinned 200 "- 1"
        "logged world_pinned (CallLibcSocket 10 524290 0) 24"]
    by (simp add: fixture_simps probe_socket_def call_socket_def logged_simps)
  show "\<exists>w'. pinNetwork ForProcess env_deny world_pinned 200 = (- 13, w')
          \<and> netIdForProcess w' = 100
          \<and> trace w' =
              [CallLibcSocket 10 524290 0,
               CallSend \<lparr>cmdId = SELECT_NETWORK, cmd_netId = 200, cmd_uid = 0\<rparr> 7 None,
               CallClose 7]"
    using pinNetwork_verified [of ForProcess env_deny world_pinned 200 7
        "logged world_pinned (CallLibcSocket 10 524290 0) 0" "- 13" 13]
    by (simp add: fixture_simps probe_socket_def call_socket_def logged_simps)
  show "\<exists>w'. pinNetwork ForProcess env0 world_pinned 200 = (0, w')
          \<and> netIdForProcess w' = 200
          \<and> trace w' =
              [CallLibcSocket 10 524290 0,
               CallSend \<lparr>cmdId = SELECT_NETWORK, cmd_netId = 200, cmd_uid = 0\<rparr> 7 None,
               CallClose 7]"
    using pinNetwork_verified [of ForProcess env0 world_pinned 200 7
        "logged world_pinned (CallLibcSocket 10 524290 0) 0" 0 0]
    by (simp add: fixture_simps probe_socket_def call_socket_def logged_simps)
qed

subsection \<open>The wrapped \<open>socket\<close>\<close>

lemma socket_dispatch_effect:
  assumes "socket_dispatch E w domain type protocol = Inr (fd, w1)"
  shows "netIdForProcess w1 = netIdForProcess w \<and> netIdForResolv w1 = netIdForResolv w
       \<and> (trace w1 = trace w @ [CallLibcSocket domain type protocol]
          \<or> trace w1 = trace w @ [CallPropSocket domain type protocol])"
  using assms
  by (auto simp: socket_dispatch_def via_libcSocket_def call_socket_def logged_simps
      split: if_splits option.splits)

lemma socket_dispatch_primitive:
  assumes "if USE_WRAPPER E \<and> propSocket E \<noteq> None then propSocket E = Some p \<and> ev = CallPropSocket
           else libcSocket E = Some p \<and> ev = CallLibcSocket"
  shows "socket_dispatch E w domain type protocol
           = Inr (fst (p w domain type protocol),
                  w\<lparr>errno := snd (p w domain type protocol),
                    trace := trace w @ [ev domain type protocol]\<rparr>)"
  using assms
  by (auto simp: socket_dispatch_def via_libcSocket_def call_socket_def logged_def
      split: if_splits)

text \<open>
  C1: let the socket primitive called by \<open>netdClientSocket\<close> return a descriptor
  other than \<open>-1\<close>. If a process network is pinned, the domain qualifies for marking
  and \<open>setNetworkForSocket\<close> for the new descriptor returns a nonzero status, then the
  wrapper returns \<open>-1\<close>, \<open>errno\<close> is the negated status, and the last thing the
  wrapper did was to close the new descriptor. If no network is pinned or the domain
  does not qualify, the wrapper returns the descriptor in the state the primitive left,
  and no exchange with the daemon has taken place.
\<close>

theorem netdClientSocket_marking:
  assumes "socket_dispatch E w domain type protocol = Inr (fd, w1)"
    and "fd \<noteq> - 1"
  shows "(netIdForProcess w \<noteq> NETID_UNSET \<and> shouldSetFwmark E domain
            \<and> setNetworkForSocket E w1 (netIdForProcess w) fd = (status, w2) \<and> status \<noteq> 0
          \<longrightarrow> (\<exists>w'. netdClientSocket E w domain type protocol = Inr (- 1, w')
                    \<and> errno w' = - status
                    \<and> trace w' = trace w2 @ [CallClose fd]))
       \<and> (netIdForProcess w = NETID_UNSET \<or> \<not> shouldSetFwmark E domain
          \<longrightarrow> netdClientSocket E w domain type protocol = Inr (fd, w1)
              \<and> sent_kinds (new_events w w1) = [])"
proof -
  from socket_dispatch_effect [OF assms(1)]
  have slot: "netIdForProcess w1 = netIdForProcess w"
    and tr: "trace w1 = trace w @ [CallLibcSocket domain type protocol]
           \<or> trace w1 = trace w @ [CallPropSocket domain type protocol]"
    by simp_all
  from tr have quiet: "sent_kinds (new_events w w1) = []"
    by (auto simp: new_events_def)
  show ?thesis
    using assms slot quiet
    by (auto simp: netdClientSocket_def closeFdAndSetErrno_def call_close_def logged_simps)
qed

theorem netdClientSocket_marking_witness:
  "(\<exists>w'. netdClientSocket env_deny world_pinned 10 1 0 = Inr (- 1, w')
        \<and> errno w' = 13
        \<and> trace w' =
            [CallLibcSocket 10 1 0,
             CallSend \<lparr>cmdId = SELECT_NETWORK, cmd_netId = 100, cmd_uid = 0\<rparr> 7 None,
             CallClose 7])
   \<and> netdClientSocket env_deny world0 10 1 0
       = Inr (7, logged world0 (CallLibcSocket 10 1 0) 0)
   \<and> netdClientSocket env_deny world_pinned 1 1 0
       = Inr (7, logged world_pinned (CallLibcSocket 1 1 0) 0)"
proof (intro conjI)
  have seven: "(7 :: cint) \<noteq> - 1"
    by simp
  have d1: "socket_dispatch env_deny world_pinned 10 1 0
      = Inr (7, logged world_pinned (CallLibcSocket 10 1 0) 0)"
    by (simp add: socket_dispatch_def via_libcSocket_def call_socket_def fixture_simps)
  have d2: "socket_dispatch env_deny world0 10 1 0
      = Inr (7, logged world0 (CallLibcSocket 10 1 0) 0)"
    by (simp add: socket_dispatch_def via_libcSocket_def call_socket_def fixture_simps)
  have d3: "socket_dispatch env_deny world_pinned 1 1 0
      = Inr (7, logged world_pinned (CallLibcSocket 1 1 0) 0)"
    by (simp add: socket_dispatch_def via_libcSocket_def call_socket_def fixture_simps)
  show "\<exists>w'. netdClientSocket env_deny world_pinned 10 1 0 = Inr (- 1, w')
        \<and> errno w' = 13
        \<and> trace w' =
            [CallLibcSocket 10 1 0,
             CallSend \<lparr>cmdId = SELECT_NETWORK, cmd_netId = 100, cmd_uid = 0\<rparr> 7 None,
             CallClose 7]"
    using netdClientSocket_marking [OF d1 seven, of "- 13"
        "logged (logged world_pinned (CallLibcSocket 10 1 0) 0)
           (CallSend \<lparr>cmdId = SELECT_NETWORK, cmd_netId = 100, cmd_uid = 0\<rparr> 7 None) 13"]
    by (simp add: setNetworkForSocket_def call_send_def fixture_simps logged_simps)
  show "netdClientSocket env_deny world0 10 1 0
       = Inr (7, logged world0 (CallLibcSocket 10 1 0) 0)"
    using netdClientSocket_marking [OF d2 seven]
    by (simp add: fixture_simps)
  show "netdClientSocket env_deny world_pinned 1 1 0
       = Inr (7, logged world_pinned (CallLibcSocket 1 1 0) 0)"
    using netdClientSocket_marking [OF d3 seven]
    by (simp add: fixture_simps)
qed

subsection \<open>The wrapped \<open>connect\<close>\<close>

text \<open>
  C2: when the descriptor is non-negative, the address is not null and its family
  qualifies for marking, a nonzero status of the \<open>ON_CONNECT\<close> exchange makes
  \<open>netdClientConnect\<close> return \<open>-1\<close> with \<open>errno\<close> the negated status; that
  exchange is the only external call of the wrapper, so no connect primitive has been
  called.
\<close>

theorem netdClientConnect_on_connect_failure:
  assumes "0 \<le>s sockfd"
    and "addr = Some sa"
    and "shouldSetFwmark E (ucast (sa_family sa))"
    and "FwmarkClient_send E w \<lparr>cmdId = ON_CONNECT, cmd_netId = 0, cmd_uid = 0\<rparr> sockfd None
           = (status, e)"
    and "status \<noteq> 0"
  shows "\<exists>w'. netdClientConnect E w sockfd addr addrlen = Inr (- 1, w')
             \<and> errno w' = - status
             \<and> trace w' = trace w @
                 [CallSend \<lparr>cmdId = ON_CONNECT, cmd_netId = 0, cmd_uid = 0\<rparr> sockfd None]"
  using assms
  by (simp add: netdClientConnect_def call_send_def logged_simps)

theorem netdClientConnect_on_connect_failure_witness:
  "\<exists>w'. netdClientConnect env_deny world0 3 (Some inet_peer) 16 = Inr (- 1, w')
       \<and> errno w' = 13
       \<and> trace w' = [CallSend \<lparr>cmdId = ON_CONNECT, cmd_netId = 0, cmd_uid = 0\<rparr> 3 None]"
proof -
  have "(0 :: cint) \<le>s 3"
    by (simp add: word_sle_eq)
  moreover have "shouldSetFwmark env_deny (ucast (sa_family inet_peer))"
    by (simp add: fixture_simps)
  moreover have "FwmarkClient_send env_deny world0
      \<lparr>cmdId = ON_CONNECT, cmd_netId = 0, cmd_uid = 0\<rparr> 3 None = (- 13, 13)"
    by (simp add: env_deny_def)
  moreover have "(- 13 :: cint) \<noteq> 0"
    by simp
  ultimately show ?thesis
    using netdClientConnect_on_connect_failure
      [of 3 "Some inet_peer" inet_peer env_deny world0 "- 13" 13 16]
    by (simp add: world0_def)
qed

lemma answering_complete_simps:
  "USE_WRAPPER (answering_complete E g) = USE_WRAPPER E"
  "shouldSetFwmark (answering_complete E g) = shouldSetFwmark E"
  "shouldReportConnectComplete (answering_complete E g) = shouldReportConnectComplete E"
  "libcConnect (answering_complete E g) = libcConnect E"
  "propConnect (answering_complete E g) = propConnect E"
  "timeTaken (answering_complete E g) = timeTaken E"
  "cmdId command \<noteq> ON_CONNECT_COMPLETE \<Longrightarrow>
     FwmarkClient_send (answering_complete E g) w command fd info
       = FwmarkClient_send E w command fd info"
  by (simp_all add: answering_complete_def)

lemma answering_complete_self: "answering_complete E (FwmarkClient_send E) = E"
  by (simp add: answering_complete_def)

lemma connect_dispatch_answering:
  "connect_dispatch (answering_complete E g) = connect_dispatch E"
  by (intro ext)
    (simp add: connect_dispatch_def via_libcConnect_def answering_complete_simps
      split: option.splits)

lemma call_send_answering:
  "cmdId command \<noteq> ON_CONNECT_COMPLETE \<Longrightarrow>
     call_send (answering_complete E g) w command fd info = call_send E w command fd info"
  by (simp add: call_send_def answering_complete_simps)

lemma netdClientConnect_reaches:
  assumes "if 0 \<le>s sockfd \<and> (\<exists>sa. addr = Some sa \<and> shouldSetFwmark E (ucast (sa_family sa)))
           then call_send E w \<lparr>cmdId = ON_CONNECT, cmd_netId = 0, cmd_uid = 0\<rparr> sockfd None
                  = (0, w1)
           else w1 = w"
  shows "\<exists>b. netdClientConnect E w sockfd addr addrlen
           = connect_and_report E w1 b sockfd addr addrlen"
  using assms
  by (cases addr) (auto simp: netdClientConnect_def Let_def split: if_splits)

lemma connect_dispatch_primitive:
  assumes "if USE_WRAPPER E then
             \<exists>sa. addr = Some sa
               \<and> (if shouldSetFwmark E (ucast (sa_family sa)) \<and> propConnect E \<noteq> None
                  then propConnect E = Some p \<and> ev = CallPropConnect
                  else libcConnect E = Some p \<and> ev = CallLibcConnect)
           else libcConnect E = Some p \<and> ev = CallLibcConnect"
  shows "connect_dispatch E w sockfd addr addrlen
           = Inr (fst (p w sockfd addr addrlen),
                  w\<lparr>errno := snd (p w sockfd addr addrlen),
                    trace := trace w @ [ev sockfd addr addrlen]\<rparr>)"
  using assms
  by (auto simp: connect_dispatch_def via_libcConnect_def call_connect_def logged_def
      split: if_splits)

lemma connect_and_report_relays:
  assumes "connect_dispatch E w1 sockfd addr addrlen = Inr (r, wc)"
  shows "\<exists>w'. connect_and_report E w1 shouldSet sockfd addr addrlen = Inr (r, w')
            \<and> errno w' = errno wc
            \<and> take (length (trace wc)) (trace w') = trace wc"
  using assms by (simp add: connect_and_report_def Let_def call_send_def logged_simps)

lemma netdClientConnect_relays:
  assumes "if 0 \<le>s sockfd \<and> (\<exists>sa. addr = Some sa \<and> shouldSetFwmark E (ucast (sa_family sa)))
           then FwmarkClient_send E w \<lparr>cmdId = ON_CONNECT, cmd_netId = 0, cmd_uid = 0\<rparr>
                  sockfd None = (0, e0)
                \<and> w1 = w\<lparr>errno := e0,
                         trace := trace w @
                           [CallSend \<lparr>cmdId = ON_CONNECT, cmd_netId = 0, cmd_uid = 0\<rparr>
                              sockfd None]\<rparr>
           else w1 = w"
    and "if USE_WRAPPER E then
           \<exists>sa. addr = Some sa
             \<and> (if shouldSetFwmark E (ucast (sa_family sa)) \<and> propConnect E \<noteq> None
                then propConnect E = Some p \<and> ev = CallPropConnect
                else libcConnect E = Some p \<and> ev = CallLibcConnect)
         else libcConnect E = Some p \<and> ev = CallLibcConnect"
  shows "\<exists>w'. netdClientConnect (answering_complete E g) w sockfd addr addrlen
                 = Inr (fst (p w1 sockfd addr addrlen), w')
            \<and> errno w' = snd (p w1 sockfd addr addrlen)
            \<and> take (Suc (length (trace w1))) (trace w') = trace w1 @ [ev sockfd addr addrlen]"
proof -
  let ?E = "answering_complete E g"
  let ?wc = "w1\<lparr>errno := snd (p w1 sockfd addr addrlen),
                trace := trace w1 @ [ev sockfd addr addrlen]\<rparr>"
  have "if 0 \<le>s sockfd \<and> (\<exists>sa. addr = Some sa \<and> shouldSetFwmark E (ucast (sa_family sa)))
        then call_send E w \<lparr>cmdId = ON_CONNECT, cmd_netId = 0, cmd_uid = 0\<rparr> sockfd None
               = (0, w1)
        else w1 = w"
    using assms(1) by (auto simp: call_send_def logged_def split: if_splits)
  then have "if 0 \<le>s sockfd
                \<and> (\<exists>sa. addr = Some sa \<and> shouldSetFwmark ?E (ucast (sa_family sa)))
        then call_send ?E w \<lparr>cmdId = ON_CONNECT, cmd_netId = 0, cmd_uid = 0\<rparr> sockfd None
               = (0, w1)
        else w1 = w"
    by (simp add: answering_complete_simps call_send_answering)
  then obtain b where "netdClientConnect ?E w sockfd addr addrlen
      = connect_and_report ?E w1 b sockfd addr addrlen"
    using netdClientConnect_reaches by blast
  moreover have "connect_dispatch ?E w1 sockfd addr addrlen
      = Inr (fst (p w1 sockfd addr addrlen), ?wc)"
    using connect_dispatch_primitive [OF assms(2)] by (simp add: connect_dispatch_answering)
  ultimately show ?thesis
    using connect_and_report_relays [of ?E w1 sockfd addr addrlen
        "fst (p w1 sockfd addr addrlen)" ?wc b]
    by simp
qed

text \<open>
  C5: let \<open>w1\<close> be the state in which \<open>netdClientConnect\<close> calls the connect
  primitive: the initial state, or, when the call qualifies for marking, the initial
  state with the \<open>ON_CONNECT\<close> exchange logged and the \<open>errno\<close> it left, its status
  being 0. Let \<open>p\<close> be the primitive the build selects: \<open>libcConnect\<close>, or, with
  \<open>USE_WRAPPER\<close>, a qualifying family and the entry set, \<open>propConnect\<close>. Then the
  wrapper calls \<open>p\<close> in \<open>w1\<close> with its own arguments, returns the value \<open>p\<close>
  returns and leaves the \<open>errno\<close> \<open>p\<close> leaves; and it does so whatever the daemon
  answers to \<open>ON_CONNECT_COMPLETE\<close>, status and \<open>errno\<close> alike.
\<close>

theorem netdClientConnect_outcome:
  assumes "if 0 \<le>s sockfd \<and> (\<exists>sa. addr = Some sa \<and> shouldSetFwmark E (ucast (sa_family sa)))
           then FwmarkClient_send E w \<lparr>cmdId = ON_CONNECT, cmd_netId = 0, cmd_uid = 0\<rparr>
                  sockfd None = (0, e0)
                \<and> w1 = w\<lparr>errno := e0,
                         trace := trace w @
                           [CallSend \<lparr>cmdId = ON_CONNECT, cmd_netId = 0, cmd_uid = 0\<rparr>
                              sockfd None]\<rparr>
           else w1 = w"
    and "if USE_WRAPPER E then
           \<exists>sa. addr = Some sa
             \<and> (if shouldSetFwmark E (ucast (sa_family sa)) \<and> propConnect E \<noteq> None
                then propConnect E = Some p \<and> ev = CallPropConnect
                else libcConnect E = Some p \<and> ev = CallLibcConnect)
         else libcConnect E = Some p \<and> ev = CallLibcConnect"
  shows "(\<exists>w'. netdClientConnect E w sockfd addr addrlen
                 = Inr (fst (p w1 sockfd addr addrlen), w')
              \<and> errno w' = snd (p w1 sockfd addr addrlen)
              \<and> take (Suc (length (trace w1))) (trace w')
                  = trace w1 @ [ev sockfd addr addrlen])
       \<and> (\<forall>g. \<exists>w'. netdClientConnect (answering_complete E g) w sockfd addr addrlen
                      = Inr (fst (p w1 sockfd addr addrlen), w')
                  \<and> errno w' = snd (p w1 sockfd addr addrlen)
                  \<and> take (Suc (length (trace w1))) (trace w')
                      = trace w1 @ [ev sockfd addr addrlen])"
proof
  from netdClientConnect_relays [OF assms, of "FwmarkClient_send E"]
  show "\<exists>w'. netdClientConnect E w sockfd addr addrlen
                 = Inr (fst (p w1 sockfd addr addrlen), w')
              \<and> errno w' = snd (p w1 sockfd addr addrlen)
              \<and> take (Suc (length (trace w1))) (trace w')
                  = trace w1 @ [ev sockfd addr addrlen]"
    by (simp add: answering_complete_self)
  from netdClientConnect_relays [OF assms]
  show "\<forall>g. \<exists>w'. netdClientConnect (answering_complete E g) w sockfd addr addrlen
                      = Inr (fst (p w1 sockfd addr addrlen), w')
                  \<and> errno w' = snd (p w1 sockfd addr addrlen)
                  \<and> take (Suc (length (trace w1))) (trace w')
                      = trace w1 @ [ev sockfd addr addrlen]"
    by blast
qed


theorem netdClientConnect_outcome_witness:
  "(\<exists>w'. netdClientConnect env_refused world0 3 (Some inet_peer) 16 = Inr (- 1, w')
        \<and> errno w' = 111
        \<and> take 2 (trace w') =
            [CallSend \<lparr>cmdId = ON_CONNECT, cmd_netId = 0, cmd_uid = 0\<rparr> 3 None,
             CallLibcConnect 3 (Some inet_peer) 16])
   \<and> (\<exists>w'. netdClientConnect env_wrapper world0 3 (Some inet_peer) 16 = Inr (0, w')
        \<and> errno w' = 0
        \<and> take 2 (trace w') =
            [CallSend \<lparr>cmdId = ON_CONNECT, cmd_netId = 0, cmd_uid = 0\<rparr> 3 None,
             CallPropConnect 3 (Some inet_peer) 16])"
proof (intro conjI)
  let ?w1 = "world0\<lparr>errno := 0,
      trace := trace world0 @
        [CallSend \<lparr>cmdId = ON_CONNECT, cmd_netId = 0, cmd_uid = 0\<rparr> 3 None]\<rparr>"
  let ?refuse = "\<lambda>(w :: world) (sockfd :: cint) (addr :: sockaddr option)
      (addrlen :: socklen_t). (- 1 :: cint, 111 :: cint)"
  let ?E = "env0\<lparr>libcConnect := Some ?refuse\<rparr>"
  have a: "if 0 \<le>s (3 :: cint)
              \<and> (\<exists>sa. Some inet_peer = Some sa \<and> shouldSetFwmark ?E (ucast (sa_family sa)))
           then FwmarkClient_send ?E world0 \<lparr>cmdId = ON_CONNECT, cmd_netId = 0, cmd_uid = 0\<rparr>
                  3 None = (0, 0)
                \<and> ?w1 = world0\<lparr>errno := 0,
                     trace := trace world0 @
                       [CallSend \<lparr>cmdId = ON_CONNECT, cmd_netId = 0, cmd_uid = 0\<rparr> 3 None]\<rparr>
           else ?w1 = world0"
    by (simp add: fixture_simps)
  have b: "if USE_WRAPPER ?E then
             \<exists>sa. Some inet_peer = Some sa
               \<and> (if shouldSetFwmark ?E (ucast (sa_family sa)) \<and> propConnect ?E \<noteq> None
                  then propConnect ?E = Some ?refuse \<and> CallLibcConnect = CallPropConnect
                  else libcConnect ?E = Some ?refuse \<and> CallLibcConnect = CallLibcConnect)
           else libcConnect ?E = Some ?refuse \<and> CallLibcConnect = CallLibcConnect"
    by (simp add: env0_def)
  from netdClientConnect_outcome [where addrlen = 16, OF a b, THEN conjunct2, THEN spec,
      of "\<lambda>w command fd info. (- 13, 13)"]
  show "\<exists>w'. netdClientConnect env_refused world0 3 (Some inet_peer) 16 = Inr (- 1, w')
        \<and> errno w' = 111
        \<and> take 2 (trace w') =
            [CallSend \<lparr>cmdId = ON_CONNECT, cmd_netId = 0, cmd_uid = 0\<rparr> 3 None,
             CallLibcConnect 3 (Some inet_peer) 16]"
    by (simp add: env_refused_def world0_def numeral_2_eq_2)
  let ?vendor = "\<lambda>(w :: world) (sockfd :: cint) (addr :: sockaddr option)
      (addrlen :: socklen_t). (0 :: cint, errno w)"
  have c: "if 0 \<le>s (3 :: cint)
              \<and> (\<exists>sa. Some inet_peer = Some sa
                    \<and> shouldSetFwmark env_wrapper (ucast (sa_family sa)))
           then FwmarkClient_send env_wrapper world0
                  \<lparr>cmdId = ON_CONNECT, cmd_netId = 0, cmd_uid = 0\<rparr> 3 None = (0, 0)
                \<and> ?w1 = world0\<lparr>errno := 0,
                     trace := trace world0 @
                       [CallSend \<lparr>cmdId = ON_CONNECT, cmd_netId = 0, cmd_uid = 0\<rparr> 3 None]\<rparr>
           else ?w1 = world0"
    by (simp add: fixture_simps)
  have d: "if USE_WRAPPER env_wrapper then
             \<exists>sa. Some inet_peer = Some sa
               \<and> (if shouldSetFwmark env_wrapper (ucast (sa_family sa))
                      \<and> propConnect env_wrapper \<noteq> None
                  then propConnect env_wrapper = Some ?vendor \<and> CallPropConnect = CallPropConnect
                  else libcConnect env_wrapper = Some ?vendor
                       \<and> CallPropConnect = CallLibcConnect)
           else libcConnect env_wrapper = Some ?vendor \<and> CallPropConnect = CallLibcConnect"
    by (simp add: fixture_simps)
  from netdClientConnect_outcome [where addrlen = 16, OF c d, THEN conjunct1]
  show "\<exists>w'. netdClientConnect env_wrapper world0 3 (Some inet_peer) 16 = Inr (0, w')
        \<and> errno w' = 0
        \<and> take 2 (trace w') =
            [CallSend \<lparr>cmdId = ON_CONNECT, cmd_netId = 0, cmd_uid = 0\<rparr> 3 None,
             CallPropConnect 3 (Some inet_peer) 16]"
    by (simp add: world0_def numeral_2_eq_2)
qed

text \<open>
  C8: when \<open>netdClientConnect\<close> returns 0, so that the connection attempt has
  succeeded, and the family of the destination address does not qualify for completion
  reports, none of the exchanges with the daemon made during the call is an
  \<open>ON_CONNECT_COMPLETE\<close>.
\<close>

theorem netdClientConnect_no_completion_report:
  assumes "netdClientConnect E w sockfd addr addrlen = Inr (0, w')"
    and "addr = Some sa"
    and "\<not> shouldReportConnectComplete E (ucast (sa_family sa))"
  shows "ON_CONNECT_COMPLETE \<notin> set (sent_kinds (new_events w w'))"
  using assms
  by (auto simp: netdClientConnect_def connect_and_report_def connect_dispatch_def
      via_libcConnect_def call_connect_def call_send_def logged_simps new_events_def Let_def
      split: if_splits option.splits sum.splits prod.splits)

theorem netdClientConnect_no_completion_report_witness:
  "netdClientConnect env_noreport world0 3 (Some inet_peer) 16
     = Inr (0, \<lparr>errno = 0, netIdForProcess = 0, netIdForResolv = 0,
                trace = [CallSend \<lparr>cmdId = ON_CONNECT, cmd_netId = 0, cmd_uid = 0\<rparr> 3 None,
                         CallLibcConnect 3 (Some inet_peer) 16]\<rparr>)
   \<and> ON_CONNECT_COMPLETE \<notin> set (sent_kinds (new_events world0
         \<lparr>errno = 0, netIdForProcess = 0, netIdForResolv = 0,
          trace = [CallSend \<lparr>cmdId = ON_CONNECT, cmd_netId = 0, cmd_uid = 0\<rparr> 3 None,
                   CallLibcConnect 3 (Some inet_peer) 16]\<rparr>))"
proof -
  have run: "netdClientConnect env_noreport world0 3 (Some inet_peer) 16
     = Inr (0, \<lparr>errno = 0, netIdForProcess = 0, netIdForResolv = 0,
                trace = [CallSend \<lparr>cmdId = ON_CONNECT, cmd_netId = 0, cmd_uid = 0\<rparr> 3 None,
                         CallLibcConnect 3 (Some inet_peer) 16]\<rparr>)"
    by (simp add: netdClientConnect_def connect_and_report_def connect_dispatch_def
        via_libcConnect_def call_connect_def call_send_def logged_def fixture_simps Let_def)
  have quiet: "\<not> shouldReportConnectComplete env_noreport (ucast (sa_family inet_peer))"
    by (simp add: env_noreport_def)
  from netdClientConnect_no_completion_report [OF run refl quiet] run
  show ?thesis by simp
qed

lemma connect_dispatch_default_build:
  assumes "\<not> USE_WRAPPER E" and "libcConnect E = Some f"
  shows "connect_dispatch E w sockfd addr addrlen
           = Inr (call_connect CallLibcConnect f w sockfd addr addrlen)"
  using assms by (simp add: connect_dispatch_def via_libcConnect_def)

lemma netdClientConnect_passthrough:
  assumes "sockfd <s 0 \<or> addr = None"
  shows "netdClientConnect E w sockfd addr addrlen = connect_dispatch E w sockfd addr addrlen"
  using assms
  by (auto simp: netdClientConnect_def connect_and_report_def Let_def signed.not_le
      split: sum.splits option.splits)

lemma netdClientConnect_passthrough_default_build:
  assumes "sockfd <s 0 \<or> addr = None" and "\<not> USE_WRAPPER E" and "libcConnect E = Some f"
  shows "netdClientConnect E w sockfd addr addrlen
           = Inr (fst (f w sockfd addr addrlen),
                  w\<lparr>errno := snd (f w sockfd addr addrlen),
                    trace := trace w @ [CallLibcConnect sockfd addr addrlen]\<rparr>)"
  using assms
  by (simp add: netdClientConnect_passthrough connect_dispatch_default_build call_connect_def
      logged_def)

text \<open>
  C10: a call of \<open>netdClientConnect\<close> with a negative descriptor or a null address
  should make no exchange with the daemon and hand the call to the connect primitive,
  whose return value and \<open>errno\<close> the caller sees. Without \<open>USE_WRAPPER\<close> that is
  what happens (\<open>netdClientConnect_passthrough_default_build\<close>). In the
  \<open>USE_WRAPPER\<close> build the family is read through \<open>addr\<close> a second time, without
  the null test of the first: with a null address the call stops at a null pointer
  dereference and never reaches a connect primitive.
\<close>

theorem netdClientConnect_null_addr_wrapper_build:
  "netdClientConnect env_wrapper world0 3 None 0 = Inl NullPointerDereference"
  by (simp add: netdClientConnect_def connect_and_report_def connect_dispatch_def
      env_wrapper_def env0_def)

subsection \<open>The wrapped \<open>accept4\<close>\<close>

text \<open>
  C6: let \<open>libcAccept4\<close> answer a descriptor other than \<open>-1\<close>. The family is the
  one in the caller's address buffer as the primitive wrote it, or, when the caller
  passed no buffer, the one that the \<open>getsockopt\<close> of the environment answers for the
  new descriptor with \<open>SOL_SOCKET\<close> and \<open>SO_DOMAIN\<close>. If that family qualifies for
  marking and the \<open>ON_ACCEPT\<close> exchange returns a nonzero status,
  \<open>netdClientAccept4\<close> returns \<open>-1\<close> with \<open>errno\<close> the negated status, and its
  external calls are, in this order: the primitive, the \<open>getsockopt\<close> query exactly
  when no buffer was passed, the exchange, and the close of the accepted descriptor.
\<close>

theorem netdClientAccept4_on_accept_failure:
  assumes "libcAccept4 E = Some f"
    and "f w sockfd addr addrlen flags = (fd, e1, sa, len)"
    and "fd \<noteq> - 1"
    and "w1 = w\<lparr>errno := e1, trace := trace w @ [CallLibcAccept4 sockfd addr addrlen flags]\<rparr>"
    and "if addr \<noteq> None then family = ucast (sa_family sa) \<and> w2 = w1
         else os_getsockopt E w1 fd SOL_SOCKET SO_DOMAIN = (r, e2, family) \<and> r \<noteq> - 1
              \<and> w2 = w1\<lparr>errno := e2,
                       trace := trace w1 @ [CallGetsockopt fd SOL_SOCKET SO_DOMAIN]\<rparr>"
    and "shouldSetFwmark E family"
    and "FwmarkClient_send E w2 \<lparr>cmdId = ON_ACCEPT, cmd_netId = 0, cmd_uid = 0\<rparr> fd None
           = (status, e)"
    and "status \<noteq> 0"
  shows "\<exists>w'. netdClientAccept4 E w sockfd addr addrlen flags
                 = Inr ((- 1, w'), map_option (\<lambda>_. sa) addr, map_option (\<lambda>_. len) addrlen)
            \<and> errno w' = - status
            \<and> trace w' = trace w @ [CallLibcAccept4 sockfd addr addrlen flags]
                @ (if addr = None then [CallGetsockopt fd SOL_SOCKET SO_DOMAIN] else [])
                @ [CallSend \<lparr>cmdId = ON_ACCEPT, cmd_netId = 0, cmd_uid = 0\<rparr> fd None,
                   CallClose fd]"
proof (cases addr)
  case None
  with assms show ?thesis
    by (simp add: netdClientAccept4_def call_accept4_def call_getsockopt_def
        accept_notify_def closeFdAndSetErrno_def call_send_def call_close_def logged_def)
next
  case (Some a)
  with assms show ?thesis
    by (simp add: netdClientAccept4_def call_accept4_def accept_notify_def
        closeFdAndSetErrno_def call_send_def call_close_def logged_def)
qed


theorem netdClientAccept4_on_accept_failure_witness:
  "(\<exists>w'. netdClientAccept4 env_deny world0 4 (Some unix_peer) (Some 16) 0
            = Inr ((- 1, w'), Some \<lparr>sa_family = 2, sa_data = []\<rparr>, Some 16)
        \<and> errno w' = 13
        \<and> trace w' =
            [CallLibcAccept4 4 (Some unix_peer) (Some 16) 0,
             CallSend \<lparr>cmdId = ON_ACCEPT, cmd_netId = 0, cmd_uid = 0\<rparr> 8 None,
             CallClose 8])
   \<and> (\<exists>w'. netdClientAccept4 env_deny_inet6 world0 4 None None 0
            = Inr ((- 1, w'), None, None)
        \<and> errno w' = 13
        \<and> trace w' =
            [CallLibcAccept4 4 None None 0,
             CallGetsockopt 8 1 39,
             CallSend \<lparr>cmdId = ON_ACCEPT, cmd_netId = 0, cmd_uid = 0\<rparr> 8 None,
             CallClose 8])
   \<and> (\<exists>w'. netdClientAccept4 env_deny_inet world0 4 None None 0
            = Inr ((- 1, w'), None, None)
        \<and> errno w' = 13
        \<and> trace w' =
            [CallLibcAccept4 4 None None 0,
             CallGetsockopt 8 1 39,
             CallSend \<lparr>cmdId = ON_ACCEPT, cmd_netId = 0, cmd_uid = 0\<rparr> 8 None,
             CallClose 8])"
proof (intro conjI)
  let ?f = "\<lambda>(w :: world) (sockfd :: cint) (addr :: sockaddr option)
      (addrlen :: socklen_t option) (flags :: cint).
      (8 :: cint, errno w, \<lparr>sa_family = 2, sa_data = []\<rparr>, 16 :: socklen_t)"
  let ?peer = "\<lparr>sa_family = 2, sa_data = []\<rparr>"
  have eight: "(8 :: cint) \<noteq> - 1"
    by simp
  have deny: "(- 13 :: cint) \<noteq> 0"
    by simp
  let ?a1 = "world0\<lparr>errno := 0,
      trace := trace world0 @ [CallLibcAccept4 4 (Some unix_peer) (Some 16) 0]\<rparr>"
  have f1: "libcAccept4 env_deny = Some ?f"
    by (simp add: fixture_simps)
  have c1: "?f world0 4 (Some unix_peer) (Some 16) 0 = (8, 0, ?peer, 16)"
    by (simp add: world0_def)
  have fam1: "if Some unix_peer \<noteq> None then (2 :: cint) = ucast (sa_family ?peer) \<and> ?a1 = ?a1
         else os_getsockopt env_deny ?a1 8 SOL_SOCKET SO_DOMAIN = (0, 0, 2) \<and> (0 :: cint) \<noteq> - 1
              \<and> ?a1 = ?a1\<lparr>errno := 0,
                       trace := trace ?a1 @ [CallGetsockopt 8 SOL_SOCKET SO_DOMAIN]\<rparr>"
    by simp
  have q1: "shouldSetFwmark env_deny 2"
    by (simp add: fixture_simps)
  have s1: "FwmarkClient_send env_deny ?a1
      \<lparr>cmdId = ON_ACCEPT, cmd_netId = 0, cmd_uid = 0\<rparr> 8 None = (- 13, 13)"
    by (simp add: env_deny_def)
  from netdClientAccept4_on_accept_failure [OF f1 c1 eight refl fam1 q1 s1 deny]
  show "\<exists>w'. netdClientAccept4 env_deny world0 4 (Some unix_peer) (Some 16) 0
            = Inr ((- 1, w'), Some \<lparr>sa_family = 2, sa_data = []\<rparr>, Some 16)
        \<and> errno w' = 13
        \<and> trace w' =
            [CallLibcAccept4 4 (Some unix_peer) (Some 16) 0,
             CallSend \<lparr>cmdId = ON_ACCEPT, cmd_netId = 0, cmd_uid = 0\<rparr> 8 None,
             CallClose 8]"
    by (simp add: world0_def)
  let ?b1 = "world0\<lparr>errno := 0, trace := trace world0 @ [CallLibcAccept4 4 None None 0]\<rparr>"
  let ?b2 = "?b1\<lparr>errno := 0, trace := trace ?b1 @ [CallGetsockopt 8 SOL_SOCKET SO_DOMAIN]\<rparr>"
  have c2: "?f world0 4 None None 0 = (8, 0, ?peer, 16)"
    by (simp add: world0_def)
  have f2: "libcAccept4 env_deny_inet6 = Some ?f"
    by (simp add: fixture_simps)
  have fam2: "if (None :: sockaddr option) \<noteq> None
         then (10 :: cint) = ucast (sa_family ?peer) \<and> ?b2 = ?b1
         else os_getsockopt env_deny_inet6 ?b1 8 SOL_SOCKET SO_DOMAIN = (0, 0, 10)
              \<and> (0 :: cint) \<noteq> - 1
              \<and> ?b2 = ?b1\<lparr>errno := 0,
                       trace := trace ?b1 @ [CallGetsockopt 8 SOL_SOCKET SO_DOMAIN]\<rparr>"
    by (simp add: fixture_simps)
  have q2: "shouldSetFwmark env_deny_inet6 10"
    by (simp add: fixture_simps)
  have s2: "FwmarkClient_send env_deny_inet6 ?b2
      \<lparr>cmdId = ON_ACCEPT, cmd_netId = 0, cmd_uid = 0\<rparr> 8 None = (- 13, 13)"
    by (simp add: fixture_simps)
  from netdClientAccept4_on_accept_failure [OF f2 c2 eight refl fam2 q2 s2 deny]
  show "\<exists>w'. netdClientAccept4 env_deny_inet6 world0 4 None None 0
            = Inr ((- 1, w'), None, None)
        \<and> errno w' = 13
        \<and> trace w' =
            [CallLibcAccept4 4 None None 0,
             CallGetsockopt 8 1 39,
             CallSend \<lparr>cmdId = ON_ACCEPT, cmd_netId = 0, cmd_uid = 0\<rparr> 8 None,
             CallClose 8]"
    by (simp add: world0_def SOL_SOCKET_def SO_DOMAIN_def)
  have f3: "libcAccept4 env_deny_inet = Some ?f"
    by (simp add: fixture_simps)
  have fam3: "if (None :: sockaddr option) \<noteq> None
         then (2 :: cint) = ucast (sa_family ?peer) \<and> ?b2 = ?b1
         else os_getsockopt env_deny_inet ?b1 8 SOL_SOCKET SO_DOMAIN = (0, 0, 2)
              \<and> (0 :: cint) \<noteq> - 1
              \<and> ?b2 = ?b1\<lparr>errno := 0,
                       trace := trace ?b1 @ [CallGetsockopt 8 SOL_SOCKET SO_DOMAIN]\<rparr>"
    by (simp add: fixture_simps)
  have q3: "shouldSetFwmark env_deny_inet 2"
    by (simp add: fixture_simps)
  have s3: "FwmarkClient_send env_deny_inet ?b2
      \<lparr>cmdId = ON_ACCEPT, cmd_netId = 0, cmd_uid = 0\<rparr> 8 None = (- 13, 13)"
    by (simp add: fixture_simps)
  from netdClientAccept4_on_accept_failure [OF f3 c2 eight refl fam3 q3 s3 deny]
  show "\<exists>w'. netdClientAccept4 env_deny_inet world0 4 None None 0
            = Inr ((- 1, w'), None, None)
        \<and> errno w' = 13
        \<and> trace w' =
            [CallLibcAccept4 4 None None 0,
             CallGetsockopt 8 1 39,
             CallSend \<lparr>cmdId = ON_ACCEPT, cmd_netId = 0, cmd_uid = 0\<rparr> 8 None,
             CallClose 8]"
    by (simp add: world0_def SOL_SOCKET_def SO_DOMAIN_def)
qed

lemma netdClientAccept4_unix_unmarked:
  "netdClientAccept4 env_deny_unix world0 4 None None 0
     = Inr ((8, \<lparr>errno = 0, netIdForProcess = 0, netIdForResolv = 0,
                 trace = [CallLibcAccept4 4 None None 0, CallGetsockopt 8 1 39]\<rparr>),
            None, None)"
  by (simp add: netdClientAccept4_def call_accept4_def call_getsockopt_def accept_notify_def
      logged_def fixture_simps)


end
